theory Spec2Isabelle
  imports Main "HOL-Library.Sublist"
begin

section \<open>Go values used by the provider\<close>

text \<open>
  A Go \<open>error\<close> is modelled by the text of its \<open>Error()\<close> method; a \<open>nil\<close> error is
  \<open>None\<close>.  A Go \<open>string\<close> and a \<open>[]byte\<close> are both byte sequences, that is \<open>string\<close>.
  A function that can panic returns a value of type \<open>'a go\<close>.
\<close>

type_synonym error = string

datatype 'a go = Panics string | Returns 'a

definition nil_dereference :: string where
  "nil_dereference = ''invalid memory address or nil pointer dereference''"

subsection \<open>\<open>strings\<close> and \<open>fmt\<close>\<close>

definition HasSuffix :: "string \<Rightarrow> string \<Rightarrow> bool" where
  "HasSuffix s suf \<longleftrightarrow>
     length suf \<le> length s \<and> drop (length s - length suf) s = suf"

definition TrimSuffix :: "string \<Rightarrow> string \<Rightarrow> string" where
  "TrimSuffix s suf =
     (if HasSuffix s suf then take (length s - length suf) s else s)"

definition Contains :: "string \<Rightarrow> string \<Rightarrow> bool" where
  "Contains s substr \<longleftrightarrow> sublist substr s"

text \<open>The verb \<open>%d\<close> of \<open>fmt\<close> on an \<open>int\<close>: decimal digits, with a minus sign when negative.\<close>

fun fmt_nat :: "nat \<Rightarrow> string" where
  "fmt_nat n =
     (if n < 10 then [''0123456789'' ! n]
      else fmt_nat (n div 10) @ [''0123456789'' ! (n mod 10)])"

declare fmt_nat.simps [simp del]

definition fmt_d :: "int \<Rightarrow> string" where
  "fmt_d i = (if i < 0 then CHR ''-'' # fmt_nat (nat (- i)) else fmt_nat (nat i))"

section \<open>The gateway client (\<open>internal/trinogatewayclient/client.go\<close>)\<close>

definition maxResponseBodyLogSize :: nat where
  "maxResponseBodyLogSize = 1024"

record Backend =
  Name :: string
  ProxyTo :: string
  RoutingGroup :: string
  Active :: bool
  ExternalUrl :: string

record Auth =
  auth_Login :: string
  auth_Password :: string

text \<open>
  \<open>trinoGatewayClientHttpImpl\<close>.  Its \<open>httpclient\<close> field is always \<open>http.DefaultClient\<close>;
  what that client answers is part of the environment below.
\<close>

record trinoGatewayClientHttpImpl =
  auth :: "Auth option"
  endpoint :: string

definition NewTrinoGatewayClient ::
  "string \<Rightarrow> Auth option \<Rightarrow> error + trinoGatewayClientHttpImpl" where
  "NewTrinoGatewayClient endpoint' auth' = Inr \<lparr>auth = auth', endpoint = endpoint'\<rparr>"

subsection \<open>HTTP requests, responses and the environment\<close>

datatype http_method = GET | POST

text \<open>
  An \<open>http.Request\<close> as far as the client determines it: method, URL, body (\<open>None\<close> for
  a \<open>nil\<close> body) and the credentials of a Basic \<open>Authorization\<close> header, if one was set.
\<close>

record http_request =
  Method :: http_method
  URL :: string
  Body :: "string option"
  BasicAuth :: "(string \<times> string) option"

text \<open>
  What \<open>httpclient.Do\<close> followed by \<open>io.ReadAll(response.Body)\<close> yields: either \<open>Do\<close>
  fails, or there is a response with a status code, and reading its body gives the bytes
  read and possibly a read error.
\<close>

datatype http_result =
    SendFailed error
  | Response (StatusCode: int) (read_bytes: string) (read_error: "error option")

text \<open>
  The parts of the Go standard library and of the network that the client calls and that
  are not code of this repository are parameters of the model:
  \<^item> \<open>NewRequest_error\<close>: the error of \<open>http.NewRequest\<close> for a method and URL, if any;
  \<^item> \<open>json_Marshal\<close>: \<open>json.Marshal\<close> on a \<open>*Backend\<close>;
  \<^item> \<open>json_Unmarshal\<close>: \<open>json.Unmarshal\<close> into a \<open>[]*Backend\<close> (an entry \<open>None\<close> is a
    \<open>nil\<close> pointer);
  \<^item> \<open>Do\<close>: the answer of the HTTP client to a request.
\<close>

record env =
  NewRequest_error :: "http_method \<Rightarrow> string \<Rightarrow> error option"
  json_Marshal :: "Backend \<Rightarrow> error + string"
  json_Unmarshal :: "string \<Rightarrow> error + Backend option list"
  Do :: "http_request \<Rightarrow> http_result"

definition NewRequest ::
  "env \<Rightarrow> http_method \<Rightarrow> string \<Rightarrow> string option \<Rightarrow> error + http_request" where
  "NewRequest E m url body =
     (case NewRequest_error E m url of
        Some err \<Rightarrow> Inl err
      | None \<Rightarrow> Inr \<lparr>Method = m, URL = url, Body = body, BasicAuth = None\<rparr>)"

subsection \<open>The client's methods\<close>

definition getFullUrl :: "trinoGatewayClientHttpImpl \<Rightarrow> string \<Rightarrow> string" where
  "getFullUrl tg subpath = TrimSuffix (endpoint tg) ''/'' @ subpath"

definition addAuth :: "trinoGatewayClientHttpImpl \<Rightarrow> http_request \<Rightarrow> http_request" where
  "addAuth tg request =
     (case auth tg of
        Some a \<Rightarrow> request\<lparr>BasicAuth := Some (auth_Login a, auth_Password a)\<rparr>
      | None \<Rightarrow> request)"

text \<open>The error built at a status code other than 200, the same text in all three methods.\<close>

definition bad_response :: "int \<Rightarrow> string \<Rightarrow> error" where
  "bad_response code responseBody =
     ''bad http response code: '' @ fmt_d code @ '', body: '' @
     take (min (length responseBody) maxResponseBodyLogSize) responseBody"

text \<open>
  Every method threads the list of the requests handed to \<open>httpclient.Do\<close> so far, and
  returns it extended by its own request.
\<close>

definition AddOrUpdateBackend ::
  "env \<Rightarrow> trinoGatewayClientHttpImpl \<Rightarrow> Backend \<Rightarrow> http_request list \<Rightarrow>
     error option \<times> http_request list" where
  "AddOrUpdateBackend E tg backend sent =
     (case json_Marshal E backend of
        Inl err \<Rightarrow> (Some (''cant marshal backend: '' @ err), sent)
      | Inr requestBody \<Rightarrow>
          (case NewRequest E POST (getFullUrl tg ''/entity?entityType=GATEWAY_BACKEND'')
                  (Some requestBody) of
             Inl err \<Rightarrow> (Some (''cant create request: '' @ err), sent)
           | Inr request0 \<Rightarrow>
               (let request = addAuth tg request0 in
                case Do E request of
                  SendFailed err \<Rightarrow> (Some (''cant send request: '' @ err), sent @ [request])
                | Response code responseBody _ \<Rightarrow>
                    if code \<noteq> 200
                    then (Some (bad_response code responseBody), sent @ [request])
                    else (None, sent @ [request]))))"

definition DeleteBackend ::
  "env \<Rightarrow> trinoGatewayClientHttpImpl \<Rightarrow> string \<Rightarrow> http_request list \<Rightarrow>
     error option \<times> http_request list" where
  "DeleteBackend E tg name sent =
     (case NewRequest E POST (getFullUrl tg ''/gateway/backend/modify/delete'') (Some name) of
        Inl err \<Rightarrow> (Some (''cant create request: '' @ err), sent)
      | Inr request0 \<Rightarrow>
          (let request = addAuth tg request0 in
           case Do E request of
             SendFailed err \<Rightarrow> (Some (''cant send request: '' @ err), sent @ [request])
           | Response code responseBody _ \<Rightarrow>
               if code \<noteq> 200
               then (Some (bad_response code responseBody), sent @ [request])
               else (None, sent @ [request])))"

definition GetAllBackends ::
  "env \<Rightarrow> trinoGatewayClientHttpImpl \<Rightarrow> http_request list \<Rightarrow>
     (error + Backend option list) \<times> http_request list" where
  "GetAllBackends E tg sent =
     (case NewRequest E GET (getFullUrl tg ''/entity/GATEWAY_BACKEND'') None of
        Inl err \<Rightarrow> (Inl (''cant create request: '' @ err), sent)
      | Inr request0 \<Rightarrow>
          (let request = addAuth tg request0 in
           case Do E request of
             SendFailed err \<Rightarrow> (Inl (''cant send request: '' @ err), sent @ [request])
           | Response code responseBody rerr \<Rightarrow>
               if rerr \<noteq> None then (Inl ''cant read response body'', sent @ [request])
               else if code \<noteq> 200
               then (Inl (bad_response code responseBody), sent @ [request])
               else
                 (case json_Unmarshal E responseBody of
                    Inl err \<Rightarrow>
                      (Inl (''cant unmarshal response: '' @ err @ '', body: '' @
                            take (min (length responseBody) maxResponseBodyLogSize) responseBody),
                       sent @ [request])
                  | Inr allBackends \<Rightarrow> (Inr allBackends, sent @ [request]))))"

section \<open>Values of the plugin framework\<close>

text \<open>
  \<open>types.String\<close> and \<open>types.Bool\<close> of the plugin framework: a value is null, unknown or
  known.  \<open>ValueString\<close> and \<open>ValueBool\<close> give the zero value unless the value is known;
  the zero value of the Go types themselves is the null value.
\<close>

datatype tf_String = StringNull | StringUnknown | StringValue string

datatype tf_Bool = BoolNull | BoolUnknown | BoolValue bool

fun IsNull :: "tf_String \<Rightarrow> bool" where
  "IsNull StringNull = True"
| "IsNull _ = False"

fun IsUnknown :: "tf_String \<Rightarrow> bool" where
  "IsUnknown StringUnknown = True"
| "IsUnknown _ = False"

fun ValueString :: "tf_String \<Rightarrow> string" where
  "ValueString (StringValue v) = v"
| "ValueString _ = []"

fun ValueBool :: "tf_Bool \<Rightarrow> bool" where
  "ValueBool (BoolValue v) = v"
| "ValueBool _ = False"

text \<open>An error diagnostic: summary and detail.\<close>

datatype diagnostic = ErrorDiagnostic string string

section \<open>The provider (\<open>internal/provider/provider.go\<close>)\<close>

record TrinoGatewayProviderModel =
  Endpoint :: tf_String
  Login :: tf_String
  Password :: tf_String

record ConfigureResponse =
  ConfigureDiagnostics :: "diagnostic list"
  DataSourceData :: "trinoGatewayClientHttpImpl option"
  ResourceData :: "trinoGatewayClientHttpImpl option"

text \<open>
  \<open>Configure\<close>, from the point where the configuration has been decoded into \<open>data\<close>
  without an error diagnostic.  The block that decides \<open>auth\<close> either returns early with
  a diagnostic or yields the credentials.
\<close>

definition Configure :: "TrinoGatewayProviderModel \<Rightarrow> ConfigureResponse" where
  "Configure data =
     (if IsNull (Endpoint data) then
        \<lparr>ConfigureDiagnostics =
           [ErrorDiagnostic ''Endpoint for trino gateway client is not specify''
              ''Cant configure trino gateway client: endpoint is not specified''],
         DataSourceData = None, ResourceData = None\<rparr>
      else
        (case (if \<not> IsNull (Login data) then
                 (if IsNull (Password data) then
                    Inl (ErrorDiagnostic ''Cant configure trino gateway client auth''
                      ''Cant configure trino gateway client auth: if login set, password should be set too'')
                  else Inr (Some \<lparr>auth_Login = ValueString (Login data),
                                   auth_Password = ValueString (Password data)\<rparr>))
               else Inr None) of
           Inl d \<Rightarrow> \<lparr>ConfigureDiagnostics = [d], DataSourceData = None, ResourceData = None\<rparr>
         | Inr auth' \<Rightarrow>
             (case NewTrinoGatewayClient (ValueString (Endpoint data)) auth' of
                Inl err \<Rightarrow>
                  \<lparr>ConfigureDiagnostics =
                     [ErrorDiagnostic ''Cant configure trino gateway client''
                        (''cant configure trino gateway client: '' @ err)],
                   DataSourceData = None, ResourceData = None\<rparr>
              | Inr client \<Rightarrow>
                  \<lparr>ConfigureDiagnostics = [], DataSourceData = Some client,
                   ResourceData = Some client\<rparr>)))"

section \<open>The backend resource\<close>

text \<open>
  The interface \<open>TrinoGatewayClient\<close> held by \<open>BackendResource\<close>: three methods, each
  acting on the world \<open>'w\<close> the client talks to.  \<open>http_client\<close> is the interface value of
  the HTTP implementation above, whose world is the list of requests sent.
\<close>

record 'w TrinoGatewayClient =
  call_AddOrUpdateBackend :: "Backend \<Rightarrow> 'w \<Rightarrow> error option \<times> 'w"
  call_DeleteBackend :: "string \<Rightarrow> 'w \<Rightarrow> error option \<times> 'w"
  call_GetAllBackends :: "'w \<Rightarrow> (error + Backend option list) \<times> 'w"

definition http_client ::
  "env \<Rightarrow> trinoGatewayClientHttpImpl \<Rightarrow> (http_request list) TrinoGatewayClient" where
  "http_client E tg =
     \<lparr>call_AddOrUpdateBackend = AddOrUpdateBackend E tg,
      call_DeleteBackend = DeleteBackend E tg,
      call_GetAllBackends = GetAllBackends E tg\<rparr>"

record BackendResourceModel =
  tf_Id :: tf_String
  tf_Name :: tf_String
  tf_ProxyTo :: tf_String
  tf_Active :: tf_Bool
  tf_RoutingGroup :: tf_String
  tf_ExternalUrl :: tf_String

text \<open>The zero value of \<open>BackendResourceModel\<close> (\<open>var data BackendResourceModel\<close>).\<close>

definition zero_BackendResourceModel :: BackendResourceModel where
  "zero_BackendResourceModel =
     \<lparr>tf_Id = StringNull, tf_Name = StringNull, tf_ProxyTo = StringNull,
      tf_Active = BoolNull, tf_RoutingGroup = StringNull, tf_ExternalUrl = StringNull\<rparr>"

text \<open>
  What an operation does to the state of its response: leaves it as the framework
  prepared it, sets it, or removes the resource.
\<close>

datatype state_effect = Unchanged | StateSet BackendResourceModel | RemoveResource

record resource_response =
  Diagnostics :: "diagnostic list"
  State :: state_effect

text \<open>
  \<open>backendDomainToTfModel\<close> reads through the pointer \<open>domainmodel\<close>: on \<open>nil\<close> its first
  statement panics.
\<close>

definition backendDomainToTfModel ::
  "Backend option \<Rightarrow> BackendResourceModel \<Rightarrow> BackendResourceModel go" where
  "backendDomainToTfModel domainmodel tfmodel =
     (case domainmodel of
        None \<Rightarrow> Panics nil_dereference
      | Some d \<Rightarrow>
          Returns (tfmodel\<lparr>tf_Active := BoolValue (Active d),
                           tf_ProxyTo := StringValue (ProxyTo d),
                           tf_Name := StringValue (Name d),
                           tf_RoutingGroup := StringValue (RoutingGroup d),
                           tf_ExternalUrl := StringValue (ExternalUrl d)\<rparr>))"

text \<open>
  The loop \<open>for _, backend := range backends\<close> of \<open>Read\<close> and of \<open>ImportState\<close>, with
  the variable \<open>foundBackend\<close> as accumulator.  Reading \<open>backend.Name\<close> through a \<open>nil\<close>
  entry panics.
\<close>

primrec scan :: "string \<Rightarrow> Backend option list \<Rightarrow> Backend option \<Rightarrow> Backend option go" where
  "scan n [] foundBackend = Returns foundBackend"
| "scan n (backend # backends) foundBackend =
     (case backend of
        None \<Rightarrow> Panics nil_dereference
      | Some b \<Rightarrow> scan n backends (if Name b = n then Some b else foundBackend))"

text \<open>
  The five operations take the plan or prior state already decoded into \<open>data\<close> without
  an error diagnostic, and setting the state raises no diagnostic either.
\<close>

definition Create ::
  "'w TrinoGatewayClient \<Rightarrow> BackendResourceModel \<Rightarrow> 'w \<Rightarrow> resource_response \<times> 'w" where
  "Create c data0 w =
     (let backend0 = \<lparr>Name = ValueString (tf_Name data0),
                      ProxyTo = ValueString (tf_ProxyTo data0),
                      RoutingGroup = ValueString (tf_RoutingGroup data0),
                      Active = ValueBool (tf_Active data0),
                      ExternalUrl = []\<rparr>;
          data = (if IsNull (tf_ExternalUrl data0) \<or> IsUnknown (tf_ExternalUrl data0)
                  then data0\<lparr>tf_ExternalUrl := StringValue (ValueString (tf_ProxyTo data0))\<rparr>
                  else data0);
          backend = backend0\<lparr>ExternalUrl := ValueString (tf_ExternalUrl data)\<rparr>
      in case call_AddOrUpdateBackend c backend w of
           (Some err, w') \<Rightarrow>
             (\<lparr>Diagnostics = [ErrorDiagnostic ''Client Error''
                               (''Unable to add backend, got error: '' @ err)],
               State = Unchanged\<rparr>, w')
         | (None, w') \<Rightarrow>
             (\<lparr>Diagnostics = [],
               State = StateSet (data\<lparr>tf_Id := StringValue (ValueString (tf_Name data))\<rparr>)\<rparr>, w'))"

definition Read ::
  "'w TrinoGatewayClient \<Rightarrow> BackendResourceModel \<Rightarrow> 'w \<Rightarrow> resource_response go \<times> 'w" where
  "Read c data w =
     (case call_GetAllBackends c w of
        (Inl err, w') \<Rightarrow>
          (Returns \<lparr>Diagnostics = [ErrorDiagnostic ''Client Error''
                                    (''Unable to list backends, got error: '' @ err)],
                    State = Unchanged\<rparr>, w')
      | (Inr backends, w') \<Rightarrow>
          (case scan (ValueString (tf_Name data)) backends None of
             Panics p \<Rightarrow> (Panics p, w')
           | Returns foundBackend \<Rightarrow>
               if foundBackend = None
               then (Returns \<lparr>Diagnostics = [], State = RemoveResource\<rparr>, w')
               else
                 (case backendDomainToTfModel foundBackend data of
                    Panics p \<Rightarrow> (Panics p, w')
                  | Returns data' \<Rightarrow>
                      (Returns \<lparr>Diagnostics = [], State = StateSet data'\<rparr>, w'))))"

definition Update ::
  "'w TrinoGatewayClient \<Rightarrow> BackendResourceModel \<Rightarrow> 'w \<Rightarrow> resource_response \<times> 'w" where
  "Update c data0 w =
     (let backend0 = \<lparr>Name = ValueString (tf_Name data0),
                      ProxyTo = ValueString (tf_ProxyTo data0),
                      RoutingGroup = ValueString (tf_RoutingGroup data0),
                      Active = ValueBool (tf_Active data0),
                      ExternalUrl = []\<rparr>;
          data = (if IsNull (tf_ExternalUrl data0) \<or> IsUnknown (tf_ExternalUrl data0)
                  then data0\<lparr>tf_ExternalUrl := StringValue (ValueString (tf_ProxyTo data0))\<rparr>
                  else data0);
          backend = backend0\<lparr>ExternalUrl := ValueString (tf_ExternalUrl data)\<rparr>
      in case call_AddOrUpdateBackend c backend w of
           (Some err, w') \<Rightarrow>
             (\<lparr>Diagnostics = [ErrorDiagnostic ''Client Error''
                               (''Unable to update backend, got error: '' @ err)],
               State = Unchanged\<rparr>, w')
         | (None, w') \<Rightarrow> (\<lparr>Diagnostics = [], State = StateSet data\<rparr>, w'))"

definition Delete ::
  "'w TrinoGatewayClient \<Rightarrow> BackendResourceModel \<Rightarrow> 'w \<Rightarrow> resource_response \<times> 'w" where
  "Delete c data w =
     (case call_DeleteBackend c (ValueString (tf_Name data)) w of
        (Some err, w') \<Rightarrow>
          (\<lparr>Diagnostics = [ErrorDiagnostic ''Client Error''
                            (''Unable to delete backend, got error: '' @ err)],
            State = Unchanged\<rparr>, w')
      | (None, w') \<Rightarrow> (\<lparr>Diagnostics = [], State = Unchanged\<rparr>, w'))"

text \<open>
  \<open>ImportState\<close> adds the diagnostic \<open>Backend not found\<close> and goes on to
  \<open>backendDomainToTfModel\<close> with the \<open>nil\<close> pointer.
\<close>

definition ImportState ::
  "'w TrinoGatewayClient \<Rightarrow> string \<Rightarrow> 'w \<Rightarrow> resource_response go \<times> 'w" where
  "ImportState c ID w =
     (let backendName = ID in
      case call_GetAllBackends c w of
        (Inl err, w') \<Rightarrow>
          (Returns \<lparr>Diagnostics = [ErrorDiagnostic ''Client Error''
                                    (''Unable to list backends, got error: '' @ err)],
                    State = Unchanged\<rparr>, w')
      | (Inr backends, w') \<Rightarrow>
          (case scan backendName backends None of
             Panics p \<Rightarrow> (Panics p, w')
           | Returns foundBackend \<Rightarrow>
               (let diags = (if foundBackend = None
                             then [ErrorDiagnostic ''Backend not found'' ''Backend not found'']
                             else [])
                in case backendDomainToTfModel foundBackend zero_BackendResourceModel of
                     Panics p \<Rightarrow> (Panics p, w')
                   | Returns data \<Rightarrow>
                       (Returns \<lparr>Diagnostics = diags, State = StateSet data\<rparr>, w'))))"

section \<open>Values for running the model\<close>

text \<open>
  A test double of the client interface: it answers with fixed replies and records the
  calls it receives.
\<close>

datatype client_call =
    Called_AddOrUpdateBackend Backend
  | Called_DeleteBackend string
  | Called_GetAllBackends

definition recording_client ::
  "error option \<Rightarrow> error option \<Rightarrow> (error + Backend option list) \<Rightarrow>
     (client_call list) TrinoGatewayClient" where
  "recording_client add_reply delete_reply list_reply =
     \<lparr>call_AddOrUpdateBackend = (\<lambda>b w. (add_reply, w @ [Called_AddOrUpdateBackend b])),
      call_DeleteBackend = (\<lambda>n w. (delete_reply, w @ [Called_DeleteBackend n])),
      call_GetAllBackends = (\<lambda>w. (list_reply, w @ [Called_GetAllBackends]))\<rparr>"

text \<open>
  An environment in which every request can be built, the gateway gives one fixed answer
  and the decoder one fixed result; the encoded entity is represented by its name.
\<close>

definition fixed_env :: "http_result \<Rightarrow> (error + Backend option list) \<Rightarrow> env" where
  "fixed_env answer decoded =
     \<lparr>NewRequest_error = (\<lambda>m url. None),
      json_Marshal = (\<lambda>b. Inr (Name b)),
      json_Unmarshal = (\<lambda>body. decoded),
      Do = (\<lambda>request. answer)\<rparr>"

section \<open>Auxiliary facts\<close>





text \<open>
  On a list without \<open>nil\<close> entries the loop never panics, and it ends with the last entry
  of the wanted name, or with the initial value when there is none.
\<close>

lemma scan_map_Some:
  "scan n (map Some bs) found =
     Returns (if filter (\<lambda>b. Name b = n) bs = [] then found
              else Some (last (filter (\<lambda>b. Name b = n) bs)))"
  by (induction bs arbitrary: found) simp_all

lemma scan_absent:
  "\<forall>b\<in>set bs. Name b \<noteq> n \<Longrightarrow> scan n (map Some bs) None = Returns None"
  by (simp add: scan_map_Some filter_empty_conv)

lemma scan_present:
  "\<exists>b\<in>set bs. Name b = n \<Longrightarrow>
   scan n (map Some bs) None = Returns (Some (last (filter (\<lambda>b. Name b = n) bs)))"
  by (simp add: scan_map_Some filter_empty_conv)

lemma last_filter_match:
  assumes "\<exists>b\<in>set bs. Name b = n"
  shows "last (filter (\<lambda>b. Name b = n) bs) \<in> set bs \<and>
         Name (last (filter (\<lambda>b. Name b = n) bs)) = n"
proof -
  from assms have "filter (\<lambda>b. Name b = n) bs \<noteq> []"
    by (simp add: filter_empty_conv)
  then have "last (filter (\<lambda>b. Name b = n) bs) \<in> set (filter (\<lambda>b. Name b = n) bs)"
    by (rule last_in_set)
  then show ?thesis by simp
qed

section \<open>Properties of the gateway client\<close>



section \<open>Properties of the backend resource\<close>

text \<open>
  C4.  Let the list returned by the client hold no \<open>nil\<close> entry, that is, let it be a
  list of backends \<open>bs\<close>.  If no backend in it has the
  tracked name, \<open>Read\<close> removes the resource and reports no diagnostic.  If some backend
  has the tracked name, \<open>Read\<close> reports no diagnostic and sets the state with the five
  attributes name, proxy_to, routing_group, active and external_url taken from a backend
  of the list that has the tracked name; the identifier attribute keeps its prior value.
\<close>

theorem Read_refreshes_or_removes:
  assumes "call_GetAllBackends c w = (Inr (map Some bs), w')"
  shows "((\<forall>b\<in>set bs. Name b \<noteq> ValueString (tf_Name data)) \<longrightarrow>
            Read c data w = (Returns \<lparr>Diagnostics = [], State = RemoveResource\<rparr>, w')) \<and>
         ((\<exists>b\<in>set bs. Name b = ValueString (tf_Name data)) \<longrightarrow>
            (\<exists>found\<in>set bs. Name found = ValueString (tf_Name data) \<and>
               Read c data w =
                 (Returns \<lparr>Diagnostics = [],
                           State = StateSet \<lparr>tf_Id = tf_Id data,
                                             tf_Name = StringValue (Name found),
                                             tf_ProxyTo = StringValue (ProxyTo found),
                                             tf_Active = BoolValue (Active found),
                                             tf_RoutingGroup = StringValue (RoutingGroup found),
                                             tf_ExternalUrl = StringValue (ExternalUrl found)\<rparr>\<rparr>,
                  w')))"
proof (intro conjI impI)
  assume "\<forall>b\<in>set bs. Name b \<noteq> ValueString (tf_Name data)"
  then have "scan (ValueString (tf_Name data)) (map Some bs) None = Returns None"
    by (rule scan_absent)
  with assms show "Read c data w = (Returns \<lparr>Diagnostics = [], State = RemoveResource\<rparr>, w')"
    by (simp add: Read_def)
next
  let ?n = "ValueString (tf_Name data)"
  let ?f = "last (filter (\<lambda>b. Name b = ?n) bs)"
  assume ex: "\<exists>b\<in>set bs. Name b = ?n"
  then have s: "scan ?n (map Some bs) None = Returns (Some ?f)"
    by (rule scan_present)
  from ex have m: "?f \<in> set bs \<and> Name ?f = ?n"
    by (rule last_filter_match)
  have "Read c data w =
          (Returns \<lparr>Diagnostics = [],
                    State = StateSet \<lparr>tf_Id = tf_Id data,
                                      tf_Name = StringValue (Name ?f),
                                      tf_ProxyTo = StringValue (ProxyTo ?f),
                                      tf_Active = BoolValue (Active ?f),
                                      tf_RoutingGroup = StringValue (RoutingGroup ?f),
                                      tf_ExternalUrl = StringValue (ExternalUrl ?f)\<rparr>\<rparr>, w')"
    using assms s by (simp add: Read_def backendDomainToTfModel_def)
  with m show "\<exists>found\<in>set bs. Name found = ?n \<and>
               Read c data w =
                 (Returns \<lparr>Diagnostics = [],
                           State = StateSet \<lparr>tf_Id = tf_Id data,
                                             tf_Name = StringValue (Name found),
                                             tf_ProxyTo = StringValue (ProxyTo found),
                                             tf_Active = BoolValue (Active found),
                                             tf_RoutingGroup = StringValue (RoutingGroup found),
                                             tf_ExternalUrl = StringValue (ExternalUrl found)\<rparr>\<rparr>,
                  w')"
    by blast
qed

theorem Read_refreshes_or_removes_witness:
  "Read (recording_client None None (Inr []))
     \<lparr>tf_Id = StringValue ''trino-1'', tf_Name = StringValue ''trino-1'',
       tf_ProxyTo = StringValue ''old'', tf_Active = BoolValue False,
       tf_RoutingGroup = StringValue ''old'', tf_ExternalUrl = StringValue ''old''\<rparr> [] =
     (Returns \<lparr>Diagnostics = [], State = RemoveResource\<rparr>, [Called_GetAllBackends]) \<and>
   Read (recording_client None None
           (Inr [Some \<lparr>Name = ''trino-2'', ProxyTo = ''y'', RoutingGroup = ''h'',
                        Active = True, ExternalUrl = ''y''\<rparr>,
                 Some \<lparr>Name = ''trino-3'', ProxyTo = ''z'', RoutingGroup = ''h'',
                        Active = False, ExternalUrl = ''z''\<rparr>]))
     \<lparr>tf_Id = StringValue ''trino-1'', tf_Name = StringValue ''trino-1'',
       tf_ProxyTo = StringValue ''old'', tf_Active = BoolValue False,
       tf_RoutingGroup = StringValue ''old'', tf_ExternalUrl = StringValue ''old''\<rparr> [] =
     (Returns \<lparr>Diagnostics = [], State = RemoveResource\<rparr>, [Called_GetAllBackends]) \<and>
   Read (recording_client None None
           (Inr [Some \<lparr>Name = ''trino-1'', ProxyTo = ''x'', RoutingGroup = ''g'',
                        Active = True, ExternalUrl = ''x''\<rparr>]))
     \<lparr>tf_Id = StringValue ''trino-1'', tf_Name = StringValue ''trino-1'',
       tf_ProxyTo = StringValue ''old'', tf_Active = BoolValue False,
       tf_RoutingGroup = StringValue ''old'', tf_ExternalUrl = StringValue ''old''\<rparr> [] =
     (Returns \<lparr>Diagnostics = [],
               State = StateSet \<lparr>tf_Id = StringValue ''trino-1'', tf_Name = StringValue ''trino-1'',
                                 tf_ProxyTo = StringValue ''x'', tf_Active = BoolValue True,
                                 tf_RoutingGroup = StringValue ''g'',
                                 tf_ExternalUrl = StringValue ''x''\<rparr>\<rparr>,
      [Called_GetAllBackends])"
proof -
  let ?data = "\<lparr>tf_Id = StringValue ''trino-1'', tf_Name = StringValue ''trino-1'',
       tf_ProxyTo = StringValue ''old'', tf_Active = BoolValue False,
       tf_RoutingGroup = StringValue ''old'', tf_ExternalUrl = StringValue ''old''\<rparr>"
  let ?b = "\<lparr>Name = ''trino-1'', ProxyTo = ''x'', RoutingGroup = ''g'',
                        Active = True, ExternalUrl = ''x''\<rparr>"
  have g1: "call_GetAllBackends (recording_client None None (Inr [])) [] =
              (Inr (map Some []), [Called_GetAllBackends])"
    by (simp add: recording_client_def)
  have g2: "call_GetAllBackends (recording_client None None (Inr [Some ?b])) [] =
              (Inr (map Some [?b]), [Called_GetAllBackends])"
    by (simp add: recording_client_def)
  let ?o1 = "\<lparr>Name = ''trino-2'', ProxyTo = ''y'', RoutingGroup = ''h'',
                        Active = True, ExternalUrl = ''y''\<rparr>"
  let ?o2 = "\<lparr>Name = ''trino-3'', ProxyTo = ''z'', RoutingGroup = ''h'',
                        Active = False, ExternalUrl = ''z''\<rparr>"
  have g3: "call_GetAllBackends (recording_client None None (Inr [Some ?o1, Some ?o2])) [] =
              (Inr (map Some [?o1, ?o2]), [Called_GetAllBackends])"
    by (simp add: recording_client_def)
  show ?thesis
    using Read_refreshes_or_removes [OF g1, of ?data]
      Read_refreshes_or_removes [OF g3, of ?data]
      Read_refreshes_or_removes [OF g2, of ?data]
    by simp
qed

text \<open>
  As worded for every successful list response, C4 fails: when the gateway answers with
  status 200 and the body \<open>[null]\<close>, decoded to a slice holding one \<open>nil\<close> pointer, no
  backend of the list has the tracked name, and \<open>Read\<close> panics in its loop instead of
  removing the resource.
\<close>

theorem Read_refreshes_or_removes_counterexample:
  "Read
     (http_client (fixed_env (Response 200 ''[null]'' None) (Inr [None]))
        \<lparr>auth = None, endpoint = ''http://127.0.0.1:18080''\<rparr>)
     \<lparr>tf_Id = StringValue ''trino-1'', tf_Name = StringValue ''trino-1'',
      tf_ProxyTo = StringValue ''http://localhost:8085'', tf_Active = BoolValue False,
      tf_RoutingGroup = StringValue ''some'',
      tf_ExternalUrl = StringValue ''http://localhost:8085''\<rparr> [] =
   (Panics nil_dereference,
    [\<lparr>Method = GET, URL = ''http://127.0.0.1:18080/entity/GATEWAY_BACKEND'', Body = None,
      BasicAuth = None\<rparr>])"
  by (simp add: Read_def http_client_def GetAllBackends_def NewRequest_def fixed_env_def
      getFullUrl_def TrimSuffix_def HasSuffix_def addAuth_def)

lemma last_filter_split:
  "filter P bs \<noteq> [] \<Longrightarrow>
   \<exists>pre post. bs = pre @ last (filter P bs) # post \<and> (\<forall>b\<in>set post. \<not> P b)"
proof (induction bs rule: rev_induct)
  case Nil
  then show ?case by simp
next
  case (snoc x xs)
  show ?case
  proof (cases "P x")
    case True
    then have "xs @ [x] = xs @ last (filter P (xs @ [x])) # [] \<and> (\<forall>b\<in>set []. \<not> P b)"
      by simp
    then show ?thesis by blast
  next
    case False
    with snoc.prems have ne: "filter P xs \<noteq> []" by simp
    from snoc.IH [OF ne] obtain pre post
      where xs: "xs = pre @ last (filter P xs) # post" and post: "\<forall>b\<in>set post. \<not> P b"
      by blast
    from False have l: "last (filter P (xs @ [x])) = last (filter P xs)" by simp
    have "xs @ [x] = pre @ last (filter P (xs @ [x])) # (post @ [x])"
      using xs l by simp
    moreover have "\<forall>b\<in>set (post @ [x]). \<not> P b"
      using post False by simp
    ultimately show ?thesis by blast
  qed
qed

lemma ImportState_present:
  assumes "call_GetAllBackends c w = (Inr (map Some bs), w')"
    and "\<exists>b\<in>set bs. Name b = n"
  shows "ImportState c n w =
     (Returns \<lparr>Diagnostics = [],
               State = StateSet
                 \<lparr>tf_Id = StringNull,
                  tf_Name = StringValue (Name (last (filter (\<lambda>b. Name b = n) bs))),
                  tf_ProxyTo = StringValue (ProxyTo (last (filter (\<lambda>b. Name b = n) bs))),
                  tf_Active = BoolValue (Active (last (filter (\<lambda>b. Name b = n) bs))),
                  tf_RoutingGroup = StringValue (RoutingGroup (last (filter (\<lambda>b. Name b = n) bs))),
                  tf_ExternalUrl = StringValue (ExternalUrl (last (filter (\<lambda>b. Name b = n) bs)))\<rparr>\<rparr>,
      w')"
  using assms(1) scan_present [OF assms(2)]
  by (simp add: ImportState_def backendDomainToTfModel_def zero_BackendResourceModel_def)

lemma Read_present:
  assumes "call_GetAllBackends c w = (Inr (map Some bs), w')"
    and "\<exists>b\<in>set bs. Name b = ValueString (tf_Name data)"
  shows "Read c data w =
     (Returns \<lparr>Diagnostics = [],
               State = StateSet
                 (data\<lparr>tf_Active := BoolValue (Active (last (filter (\<lambda>b. Name b = ValueString (tf_Name data)) bs))),
                        tf_ProxyTo := StringValue (ProxyTo (last (filter (\<lambda>b. Name b = ValueString (tf_Name data)) bs))),
                        tf_Name := StringValue (Name (last (filter (\<lambda>b. Name b = ValueString (tf_Name data)) bs))),
                        tf_RoutingGroup := StringValue (RoutingGroup (last (filter (\<lambda>b. Name b = ValueString (tf_Name data)) bs))),
                        tf_ExternalUrl := StringValue (ExternalUrl (last (filter (\<lambda>b. Name b = ValueString (tf_Name data)) bs)))\<rparr>)\<rparr>,
      w')"
  using assms(1) scan_present [OF assms(2)]
  by (simp add: Read_def backendDomainToTfModel_def)

lemma ImportState_absent:
  assumes "call_GetAllBackends c w = (Inr (map Some bs), w')"
    and "\<forall>b\<in>set bs. Name b \<noteq> n"
  shows "ImportState c n w = (Panics nil_dereference, w')"
  using assms(1) scan_absent [OF assms(2)]
  by (simp add: ImportState_def backendDomainToTfModel_def)

text \<open>
  C5.  Let the list returned by the client hold no \<open>nil\<close> entry, that is, let it be a
  list of backends.  When two or more backends of the list have the searched name, the scan of \<open>Read\<close>
  and \<open>ImportState\<close> ends with the last of them in the order of the list: no backend
  after it has that name.  Both operations then set the state from that backend and
  report no diagnostic.
\<close>

theorem scan_last_match_wins:
  assumes "2 \<le> length (filter (\<lambda>b. Name b = n) bs)"
    and "call_GetAllBackends c w = (Inr (map Some bs), w')"
  shows "let found = last (filter (\<lambda>b. Name b = n) bs) in
     (\<exists>pre post. bs = pre @ found # post \<and> (\<forall>b\<in>set post. Name b \<noteq> n)) \<and>
     Name found = n \<and>
     scan n (map Some bs) None = Returns (Some found) \<and>
     ImportState c n w =
       (Returns \<lparr>Diagnostics = [],
                 State = StateSet \<lparr>tf_Id = StringNull,
                                   tf_Name = StringValue (Name found),
                                   tf_ProxyTo = StringValue (ProxyTo found),
                                   tf_Active = BoolValue (Active found),
                                   tf_RoutingGroup = StringValue (RoutingGroup found),
                                   tf_ExternalUrl = StringValue (ExternalUrl found)\<rparr>\<rparr>,
        w') \<and>
     (ValueString (tf_Name data) = n \<longrightarrow>
        Read c data w =
          (Returns \<lparr>Diagnostics = [],
                    State = StateSet \<lparr>tf_Id = tf_Id data,
                                      tf_Name = StringValue (Name found),
                                      tf_ProxyTo = StringValue (ProxyTo found),
                                      tf_Active = BoolValue (Active found),
                                      tf_RoutingGroup = StringValue (RoutingGroup found),
                                      tf_ExternalUrl = StringValue (ExternalUrl found)\<rparr>\<rparr>,
           w'))"
proof -
  let ?f = "last (filter (\<lambda>b. Name b = n) bs)"
  from assms(1) have ne: "filter (\<lambda>b. Name b = n) bs \<noteq> []" by auto
  then have ex: "\<exists>b\<in>set bs. Name b = n" by (simp add: filter_empty_conv)
  from last_filter_split [OF ne]
  have split: "\<exists>pre post. bs = pre @ ?f # post \<and> (\<forall>b\<in>set post. Name b \<noteq> n)" .
  from ex have nm: "Name ?f = n" using last_filter_match by blast
  from ex have sc: "scan n (map Some bs) None = Returns (Some ?f)" by (rule scan_present)
  have imp: "ImportState c n w =
          (Returns \<lparr>Diagnostics = [],
                    State = StateSet \<lparr>tf_Id = StringNull,
                                      tf_Name = StringValue (Name ?f),
                                      tf_ProxyTo = StringValue (ProxyTo ?f),
                                      tf_Active = BoolValue (Active ?f),
                                      tf_RoutingGroup = StringValue (RoutingGroup ?f),
                                      tf_ExternalUrl = StringValue (ExternalUrl ?f)\<rparr>\<rparr>,
           w')"
    using assms(2) ex by (rule ImportState_present)
  have rd: "Read c data w =
             (Returns \<lparr>Diagnostics = [],
                       State = StateSet \<lparr>tf_Id = tf_Id data,
                                         tf_Name = StringValue (Name ?f),
                                         tf_ProxyTo = StringValue (ProxyTo ?f),
                                         tf_Active = BoolValue (Active ?f),
                                         tf_RoutingGroup = StringValue (RoutingGroup ?f),
                                         tf_ExternalUrl = StringValue (ExternalUrl ?f)\<rparr>\<rparr>,
              w')"
    if n: "ValueString (tf_Name data) = n"
  proof -
    from ex n have "\<exists>b\<in>set bs. Name b = ValueString (tf_Name data)" by simp
    from Read_present [OF assms(2) this] n show ?thesis by simp
  qed
  from split nm sc imp rd show ?thesis unfolding Let_def by blast
qed

theorem scan_last_match_wins_witness:
  "2 \<le> length (filter (\<lambda>b. Name b = ''trino-1'')
      [\<lparr>Name = ''trino-1'', ProxyTo = ''http://a'', RoutingGroup = ''g1'', Active = True,
         ExternalUrl = ''http://a''\<rparr>,
       \<lparr>Name = ''trino-2'', ProxyTo = ''http://b'', RoutingGroup = ''g2'', Active = True,
         ExternalUrl = ''http://b''\<rparr>,
       \<lparr>Name = ''trino-1'', ProxyTo = ''http://c'', RoutingGroup = ''g3'', Active = False,
         ExternalUrl = ''http://c''\<rparr>]) \<and>
   ImportState
     (recording_client None None
        (Inr [Some \<lparr>Name = ''trino-1'', ProxyTo = ''http://a'', RoutingGroup = ''g1'',
                     Active = True, ExternalUrl = ''http://a''\<rparr>,
              Some \<lparr>Name = ''trino-2'', ProxyTo = ''http://b'', RoutingGroup = ''g2'',
                     Active = True, ExternalUrl = ''http://b''\<rparr>,
              Some \<lparr>Name = ''trino-1'', ProxyTo = ''http://c'', RoutingGroup = ''g3'',
                     Active = False, ExternalUrl = ''http://c''\<rparr>]))
     ''trino-1'' [] =
   (Returns \<lparr>Diagnostics = [],
             State = StateSet \<lparr>tf_Id = StringNull, tf_Name = StringValue ''trino-1'',
                               tf_ProxyTo = StringValue ''http://c'', tf_Active = BoolValue False,
                               tf_RoutingGroup = StringValue ''g3'',
                               tf_ExternalUrl = StringValue ''http://c''\<rparr>\<rparr>,
    [Called_GetAllBackends]) \<and>
   Read
     (recording_client None None
        (Inr [Some \<lparr>Name = ''trino-1'', ProxyTo = ''http://a'', RoutingGroup = ''g1'',
                     Active = True, ExternalUrl = ''http://a''\<rparr>,
              Some \<lparr>Name = ''trino-2'', ProxyTo = ''http://b'', RoutingGroup = ''g2'',
                     Active = True, ExternalUrl = ''http://b''\<rparr>,
              Some \<lparr>Name = ''trino-1'', ProxyTo = ''http://c'', RoutingGroup = ''g3'',
                     Active = False, ExternalUrl = ''http://c''\<rparr>]))
     \<lparr>tf_Id = StringValue ''trino-1'', tf_Name = StringValue ''trino-1'',
       tf_ProxyTo = StringValue ''http://a'', tf_Active = BoolValue True,
       tf_RoutingGroup = StringValue ''g1'', tf_ExternalUrl = StringValue ''http://a''\<rparr> [] =
   (Returns \<lparr>Diagnostics = [],
             State = StateSet \<lparr>tf_Id = StringValue ''trino-1'', tf_Name = StringValue ''trino-1'',
                               tf_ProxyTo = StringValue ''http://c'', tf_Active = BoolValue False,
                               tf_RoutingGroup = StringValue ''g3'',
                               tf_ExternalUrl = StringValue ''http://c''\<rparr>\<rparr>,
    [Called_GetAllBackends])"
proof -
  let ?b1 = "\<lparr>Name = ''trino-1'', ProxyTo = ''http://a'', RoutingGroup = ''g1'', Active = True,
         ExternalUrl = ''http://a''\<rparr>"
  let ?b2 = "\<lparr>Name = ''trino-2'', ProxyTo = ''http://b'', RoutingGroup = ''g2'', Active = True,
         ExternalUrl = ''http://b''\<rparr>"
  let ?b3 = "\<lparr>Name = ''trino-1'', ProxyTo = ''http://c'', RoutingGroup = ''g3'', Active = False,
         ExternalUrl = ''http://c''\<rparr>"
  let ?c = "recording_client None None (Inr [Some ?b1, Some ?b2, Some ?b3])"
  let ?data = "\<lparr>tf_Id = StringValue ''trino-1'', tf_Name = StringValue ''trino-1'',
       tf_ProxyTo = StringValue ''http://a'', tf_Active = BoolValue True,
       tf_RoutingGroup = StringValue ''g1'', tf_ExternalUrl = StringValue ''http://a''\<rparr>"
  have h: "2 \<le> length (filter (\<lambda>b. Name b = ''trino-1'') [?b1, ?b2, ?b3])"
    by simp
  have g: "call_GetAllBackends ?c [] = (Inr (map Some [?b1, ?b2, ?b3]), [Called_GetAllBackends])"
    by (simp add: recording_client_def)
  have l: "last (filter (\<lambda>b. Name b = ''trino-1'') [?b1, ?b2, ?b3]) = ?b3"
    by simp
  from scan_last_match_wins [OF h g, of ?data, unfolded Let_def l] h
  show ?thesis by simp
qed

text \<open>
  As worded for every list, C5 fails: on a slice with two entries of the searched name
  and a \<open>nil\<close> entry between them, the scan panics, and so do \<open>ImportState\<close> and \<open>Read\<close>,
  instead of selecting the last entry of that name.
\<close>

theorem scan_last_match_wins_counterexample:
  "scan ''trino-1''
     [Some \<lparr>Name = ''trino-1'', ProxyTo = ''http://a'', RoutingGroup = ''g1'', Active = True,
             ExternalUrl = ''http://a''\<rparr>,
      None,
      Some \<lparr>Name = ''trino-1'', ProxyTo = ''http://c'', RoutingGroup = ''g3'', Active = False,
             ExternalUrl = ''http://c''\<rparr>] None = Panics nil_dereference \<and>
   ImportState
     (recording_client None None
        (Inr [Some \<lparr>Name = ''trino-1'', ProxyTo = ''http://a'', RoutingGroup = ''g1'',
                     Active = True, ExternalUrl = ''http://a''\<rparr>,
              None,
              Some \<lparr>Name = ''trino-1'', ProxyTo = ''http://c'', RoutingGroup = ''g3'',
                     Active = False, ExternalUrl = ''http://c''\<rparr>]))
     ''trino-1'' [] = (Panics nil_dereference, [Called_GetAllBackends]) \<and>
   Read
     (recording_client None None
        (Inr [Some \<lparr>Name = ''trino-1'', ProxyTo = ''http://a'', RoutingGroup = ''g1'',
                     Active = True, ExternalUrl = ''http://a''\<rparr>,
              None,
              Some \<lparr>Name = ''trino-1'', ProxyTo = ''http://c'', RoutingGroup = ''g3'',
                     Active = False, ExternalUrl = ''http://c''\<rparr>]))
     \<lparr>tf_Id = StringValue ''trino-1'', tf_Name = StringValue ''trino-1'',
       tf_ProxyTo = StringValue ''http://a'', tf_Active = BoolValue True,
       tf_RoutingGroup = StringValue ''g1'', tf_ExternalUrl = StringValue ''http://a''\<rparr> [] =
     (Panics nil_dereference, [Called_GetAllBackends])"
  by (simp add: ImportState_def Read_def recording_client_def)

text \<open>
  C1.  Importing the identifier \<open>trino-1\<close> while the gateway answers the list request
  with status 200 and an empty list: the list holds no backend of that name, and
  \<open>ImportState\<close> does not end with the diagnostic \<open>Backend not found\<close>.  It panics on the
  \<open>nil\<close> pointer that it passes on to \<open>backendDomainToTfModel\<close>.
\<close>

theorem ImportState_absent_panics:
  "ImportState
     (http_client (fixed_env (Response 200 ''[]'' None) (Inr []))
        \<lparr>auth = None, endpoint = ''http://127.0.0.1:18080''\<rparr>)
     ''trino-1'' [] =
   (Panics nil_dereference,
    [\<lparr>Method = GET, URL = ''http://127.0.0.1:18080/entity/GATEWAY_BACKEND'', Body = None,
      BasicAuth = None\<rparr>])"
  by (simp add: ImportState_def http_client_def GetAllBackends_def NewRequest_def fixed_env_def
      getFullUrl_def TrimSuffix_def HasSuffix_def addAuth_def backendDomainToTfModel_def)

text \<open>
  C2.  Let \<open>u\<close> be the value of \<open>proxy_to\<close> when \<open>external_url\<close> is null or unknown, and
  the value of \<open>external_url\<close> when it is known.  \<open>Create\<close> and \<open>Update\<close> call the
  client once, with the entity whose \<open>ExternalUrl\<close> is \<open>u\<close>; when the call succeeds the
  state they set has \<open>external_url\<close> equal to \<open>u\<close>, and when it fails they report the
  client's error and leave the state alone.
\<close>

theorem Create_Update_external_url:
  assumes "(IsNull (tf_ExternalUrl data) \<or> IsUnknown (tf_ExternalUrl data)) \<and>
             u = ValueString (tf_ProxyTo data) \<or>
           tf_ExternalUrl data = StringValue u"
    and "call_AddOrUpdateBackend c
           \<lparr>Name = ValueString (tf_Name data), ProxyTo = ValueString (tf_ProxyTo data),
            RoutingGroup = ValueString (tf_RoutingGroup data),
            Active = ValueBool (tf_Active data), ExternalUrl = u\<rparr> w = (r, w')"
  shows "Create c data w =
           (case r of
              None \<Rightarrow>
                \<lparr>Diagnostics = [],
                 State = StateSet (data\<lparr>tf_ExternalUrl := StringValue u,
                                        tf_Id := StringValue (ValueString (tf_Name data))\<rparr>)\<rparr>
            | Some err \<Rightarrow>
                \<lparr>Diagnostics = [ErrorDiagnostic ''Client Error''
                                  (''Unable to add backend, got error: '' @ err)],
                 State = Unchanged\<rparr>, w') \<and>
         Update c data w =
           (case r of
              None \<Rightarrow>
                \<lparr>Diagnostics = [], State = StateSet (data\<lparr>tf_ExternalUrl := StringValue u\<rparr>)\<rparr>
            | Some err \<Rightarrow>
                \<lparr>Diagnostics = [ErrorDiagnostic ''Client Error''
                                  (''Unable to update backend, got error: '' @ err)],
                 State = Unchanged\<rparr>, w') \<and>
         snd (Create (recording_client add_reply delete_reply list_reply) data calls) =
           calls @ [Called_AddOrUpdateBackend
                      \<lparr>Name = ValueString (tf_Name data), ProxyTo = ValueString (tf_ProxyTo data),
                       RoutingGroup = ValueString (tf_RoutingGroup data),
                       Active = ValueBool (tf_Active data), ExternalUrl = u\<rparr>] \<and>
         snd (Update (recording_client add_reply delete_reply list_reply) data calls) =
           calls @ [Called_AddOrUpdateBackend
                      \<lparr>Name = ValueString (tf_Name data), ProxyTo = ValueString (tf_ProxyTo data),
                       RoutingGroup = ValueString (tf_RoutingGroup data),
                       Active = ValueBool (tf_Active data), ExternalUrl = u\<rparr>]"
proof -
  let ?b = "\<lparr>Name = ValueString (tf_Name data), ProxyTo = ValueString (tf_ProxyTo data),
            RoutingGroup = ValueString (tf_RoutingGroup data),
            Active = ValueBool (tf_Active data), ExternalUrl = u\<rparr>"
  from assms(1) have d: "(if IsNull (tf_ExternalUrl data) \<or> IsUnknown (tf_ExternalUrl data)
          then data\<lparr>tf_ExternalUrl := StringValue (ValueString (tf_ProxyTo data))\<rparr>
          else data) = data\<lparr>tf_ExternalUrl := StringValue u\<rparr>"
    by auto
  have 1: "Create c data w =
           (case r of
              None \<Rightarrow>
                \<lparr>Diagnostics = [],
                 State = StateSet (data\<lparr>tf_ExternalUrl := StringValue u,
                                        tf_Id := StringValue (ValueString (tf_Name data))\<rparr>)\<rparr>
            | Some err \<Rightarrow>
                \<lparr>Diagnostics = [ErrorDiagnostic ''Client Error''
                                  (''Unable to add backend, got error: '' @ err)],
                 State = Unchanged\<rparr>, w')"
    unfolding Create_def Let_def d using assms(2) by (simp split: option.split)
  have 2: "Update c data w =
           (case r of
              None \<Rightarrow>
                \<lparr>Diagnostics = [], State = StateSet (data\<lparr>tf_ExternalUrl := StringValue u\<rparr>)\<rparr>
            | Some err \<Rightarrow>
                \<lparr>Diagnostics = [ErrorDiagnostic ''Client Error''
                                  (''Unable to update backend, got error: '' @ err)],
                 State = Unchanged\<rparr>, w')"
    unfolding Update_def Let_def d using assms(2) by (simp split: option.split)
  have 3: "snd (Create (recording_client add_reply delete_reply list_reply) data calls) =
           calls @ [Called_AddOrUpdateBackend ?b]"
    unfolding Create_def Let_def d by (simp add: recording_client_def split: option.split)
  have 4: "snd (Update (recording_client add_reply delete_reply list_reply) data calls) =
           calls @ [Called_AddOrUpdateBackend ?b]"
    unfolding Update_def Let_def d by (simp add: recording_client_def split: option.split)
  from 1 2 3 4 show ?thesis by simp
qed

theorem Create_Update_external_url_witness:
  "Create (recording_client None None (Inr []))
     \<lparr>tf_Id = StringUnknown, tf_Name = StringValue ''trino-1'',
      tf_ProxyTo = StringValue ''http://localhost:8085'', tf_Active = BoolValue False,
      tf_RoutingGroup = StringValue ''some'', tf_ExternalUrl = StringUnknown\<rparr> [] =
   (\<lparr>Diagnostics = [],
     State = StateSet \<lparr>tf_Id = StringValue ''trino-1'', tf_Name = StringValue ''trino-1'',
                       tf_ProxyTo = StringValue ''http://localhost:8085'',
                       tf_Active = BoolValue False, tf_RoutingGroup = StringValue ''some'',
                       tf_ExternalUrl = StringValue ''http://localhost:8085''\<rparr>\<rparr>,
    [Called_AddOrUpdateBackend
       \<lparr>Name = ''trino-1'', ProxyTo = ''http://localhost:8085'', RoutingGroup = ''some'',
        Active = False, ExternalUrl = ''http://localhost:8085''\<rparr>]) \<and>
   Update (recording_client None None (Inr []))
     \<lparr>tf_Id = StringValue ''trino-1'', tf_Name = StringValue ''trino-1'',
      tf_ProxyTo = StringValue ''http://localhost:8085'', tf_Active = BoolValue False,
      tf_RoutingGroup = StringValue ''some'',
      tf_ExternalUrl = StringValue ''http://trino-1:8081''\<rparr> [] =
   (\<lparr>Diagnostics = [],
     State = StateSet \<lparr>tf_Id = StringValue ''trino-1'', tf_Name = StringValue ''trino-1'',
                       tf_ProxyTo = StringValue ''http://localhost:8085'',
                       tf_Active = BoolValue False, tf_RoutingGroup = StringValue ''some'',
                       tf_ExternalUrl = StringValue ''http://trino-1:8081''\<rparr>\<rparr>,
    [Called_AddOrUpdateBackend
       \<lparr>Name = ''trino-1'', ProxyTo = ''http://localhost:8085'', RoutingGroup = ''some'',
        Active = False, ExternalUrl = ''http://trino-1:8081''\<rparr>])"
proof -
  let ?c = "recording_client None None (Inr [])"
  let ?d1 = "\<lparr>tf_Id = StringUnknown, tf_Name = StringValue ''trino-1'',
      tf_ProxyTo = StringValue ''http://localhost:8085'', tf_Active = BoolValue False,
      tf_RoutingGroup = StringValue ''some'', tf_ExternalUrl = StringUnknown\<rparr>"
  let ?d2 = "\<lparr>tf_Id = StringValue ''trino-1'', tf_Name = StringValue ''trino-1'',
      tf_ProxyTo = StringValue ''http://localhost:8085'', tf_Active = BoolValue False,
      tf_RoutingGroup = StringValue ''some'',
      tf_ExternalUrl = StringValue ''http://trino-1:8081''\<rparr>"
  have h1: "(IsNull (tf_ExternalUrl ?d1) \<or> IsUnknown (tf_ExternalUrl ?d1)) \<and>
             ''http://localhost:8085'' = ValueString (tf_ProxyTo ?d1) \<or>
           tf_ExternalUrl ?d1 = StringValue ''http://localhost:8085''"
    by simp
  have h2: "(IsNull (tf_ExternalUrl ?d2) \<or> IsUnknown (tf_ExternalUrl ?d2)) \<and>
             ''http://trino-1:8081'' = ValueString (tf_ProxyTo ?d2) \<or>
           tf_ExternalUrl ?d2 = StringValue ''http://trino-1:8081''"
    by simp
  have c1: "call_AddOrUpdateBackend ?c
           \<lparr>Name = ValueString (tf_Name ?d1), ProxyTo = ValueString (tf_ProxyTo ?d1),
            RoutingGroup = ValueString (tf_RoutingGroup ?d1),
            Active = ValueBool (tf_Active ?d1), ExternalUrl = ''http://localhost:8085''\<rparr> [] =
          (None, [Called_AddOrUpdateBackend
       \<lparr>Name = ''trino-1'', ProxyTo = ''http://localhost:8085'', RoutingGroup = ''some'',
        Active = False, ExternalUrl = ''http://localhost:8085''\<rparr>])"
    by (simp add: recording_client_def)
  have c2: "call_AddOrUpdateBackend ?c
           \<lparr>Name = ValueString (tf_Name ?d2), ProxyTo = ValueString (tf_ProxyTo ?d2),
            RoutingGroup = ValueString (tf_RoutingGroup ?d2),
            Active = ValueBool (tf_Active ?d2), ExternalUrl = ''http://trino-1:8081''\<rparr> [] =
          (None, [Called_AddOrUpdateBackend
       \<lparr>Name = ''trino-1'', ProxyTo = ''http://localhost:8085'', RoutingGroup = ''some'',
        Active = False, ExternalUrl = ''http://trino-1:8081''\<rparr>])"
    by (simp add: recording_client_def)
  from Create_Update_external_url [OF h1 c1] Create_Update_external_url [OF h2 c2]
  show ?thesis by simp
qed

section \<open>Errors and requests of the gateway client\<close>

lemma take_max_log: "take (min (length body) maxResponseBodyLogSize) body = take 1024 body"
  by (simp add: maxResponseBodyLogSize_def min_def)

lemma bad_response_text:
  "bad_response code body =
     ''bad http response code: '' @ fmt_d code @ '', body: '' @ take 1024 body"
  unfolding bad_response_def take_max_log by (rule refl)

lemma Contains_middle: "Contains (p @ x @ s) x"
  by (simp add: Contains_def)

text \<open>
  C3.  Let the gateway answer with a status code other than 200 and a body.  Then
  \<open>AddOrUpdateBackend\<close> and \<open>DeleteBackend\<close> return, whether or not reading the body
  failed, and \<open>GetAllBackends\<close> returns when the body was read without a read error, the
  error whose text is \<open>bad http response code: \<close>, the status code in decimal,
  \<open>, body: \<close> and the first 1024 bytes of the body.  The text contains the status code,
  the excerpt is a prefix of the body of at most 1024 bytes, and a longer body is cut to
  1024 bytes.  When reading the body fails, \<open>GetAllBackends\<close> returns the error
  \<open>cant read response body\<close> instead.
\<close>

theorem non_200_is_error:
  assumes "code \<noteq> 200"
    and "msg = ''bad http response code: '' @ fmt_d code @ '', body: '' @ take 1024 body"
  shows "(json_Marshal E backend = Inr requestBody \<and>
          NewRequest E POST (getFullUrl tg ''/entity?entityType=GATEWAY_BACKEND'')
            (Some requestBody) = Inr request_a \<and>
          Do E (addAuth tg request_a) = Response code body rerr_a \<longrightarrow>
            fst (AddOrUpdateBackend E tg backend sent) = Some msg) \<and>
         (NewRequest E POST (getFullUrl tg ''/gateway/backend/modify/delete'') (Some name) =
            Inr request_d \<and>
          Do E (addAuth tg request_d) = Response code body rerr_d \<longrightarrow>
            fst (DeleteBackend E tg name sent) = Some msg) \<and>
         (NewRequest E GET (getFullUrl tg ''/entity/GATEWAY_BACKEND'') None = Inr request_g \<and>
          Do E (addAuth tg request_g) = Response code body None \<longrightarrow>
            fst (GetAllBackends E tg sent) = Inl msg) \<and>
         (NewRequest E GET (getFullUrl tg ''/entity/GATEWAY_BACKEND'') None = Inr request_g \<and>
          Do E (addAuth tg request_g) = Response code body (Some rerr_g) \<longrightarrow>
            fst (GetAllBackends E tg sent) = Inl ''cant read response body'') \<and>
         Contains msg (fmt_d code) \<and>
         length (take 1024 body) \<le> 1024 \<and>
         prefix (take 1024 body) body \<and>
         (1024 < length body \<longrightarrow> length (take 1024 body) = 1024)"
proof -
  have m: "msg = bad_response code body"
    using assms(2) by (simp add: bad_response_text)
  have a: "fst (AddOrUpdateBackend E tg backend sent) = Some msg"
    if "json_Marshal E backend = Inr requestBody"
      "NewRequest E POST (getFullUrl tg ''/entity?entityType=GATEWAY_BACKEND'')
            (Some requestBody) = Inr request_a"
      "Do E (addAuth tg request_a) = Response code body rerr_a"
    using that assms(1) m by (simp add: AddOrUpdateBackend_def)
  have d: "fst (DeleteBackend E tg name sent) = Some msg"
    if "NewRequest E POST (getFullUrl tg ''/gateway/backend/modify/delete'') (Some name) =
            Inr request_d"
      "Do E (addAuth tg request_d) = Response code body rerr_d"
    using that assms(1) m by (simp add: DeleteBackend_def)
  have g: "fst (GetAllBackends E tg sent) = Inl msg"
    if "NewRequest E GET (getFullUrl tg ''/entity/GATEWAY_BACKEND'') None = Inr request_g"
      "Do E (addAuth tg request_g) = Response code body None"
    using that assms(1) m by (simp add: GetAllBackends_def)
  have gf: "fst (GetAllBackends E tg sent) = Inl ''cant read response body''"
    if "NewRequest E GET (getFullUrl tg ''/entity/GATEWAY_BACKEND'') None = Inr request_g"
      "Do E (addAuth tg request_g) = Response code body (Some rerr_g)"
    using that by (simp add: GetAllBackends_def)
  have c: "Contains msg (fmt_d code)"
    unfolding assms(2) by (rule Contains_middle)
  have p: "prefix (take 1024 body) body"
    by (rule take_is_prefix)
  from a d g gf c p show ?thesis by simp
qed

lemma fmt_d_500: "fmt_d 500 = ''500''"
  by (simp add: fmt_d_def fmt_nat.simps)

lemma fmt_d_404: "fmt_d 404 = ''404''"
  by (simp add: fmt_d_def fmt_nat.simps)

theorem non_200_is_error_witness:
  "fst (AddOrUpdateBackend (fixed_env (Response 500 (replicate 2000 CHR ''x'') None) (Inr []))
          \<lparr>auth = None, endpoint = ''http://127.0.0.1:18080''\<rparr>
          \<lparr>Name = ''trino-1'', ProxyTo = ''http://localhost:8085'', RoutingGroup = ''some'',
           Active = False, ExternalUrl = ''http://localhost:8085''\<rparr> []) =
     Some (''bad http response code: 500, body: '' @ replicate 1024 CHR ''x'') \<and>
   fst (DeleteBackend (fixed_env (Response 500 (replicate 2000 CHR ''x'') None) (Inr []))
          \<lparr>auth = None, endpoint = ''http://127.0.0.1:18080''\<rparr> ''trino-1'' []) =
     Some (''bad http response code: 500, body: '' @ replicate 1024 CHR ''x'') \<and>
   fst (GetAllBackends (fixed_env (Response 500 (replicate 2000 CHR ''x'') None) (Inr []))
          \<lparr>auth = None, endpoint = ''http://127.0.0.1:18080''\<rparr> []) =
     Inl (''bad http response code: 500, body: '' @ replicate 1024 CHR ''x'') \<and>
   fst (GetAllBackends (fixed_env (Response 502 ''Bad Gate'' (Some ''unexpected EOF'')) (Inr []))
          \<lparr>auth = None, endpoint = ''http://127.0.0.1:18080''\<rparr> []) =
     Inl ''cant read response body''"
proof -
  let ?E = "fixed_env (Response 500 (replicate 2000 CHR ''x'') None) (Inr [])"
  let ?F = "fixed_env (Response 502 ''Bad Gate'' (Some ''unexpected EOF'')) (Inr [])"
  let ?tg = "\<lparr>auth = None, endpoint = ''http://127.0.0.1:18080''\<rparr>"
  let ?b = "\<lparr>Name = ''trino-1'', ProxyTo = ''http://localhost:8085'', RoutingGroup = ''some'',
           Active = False, ExternalUrl = ''http://localhost:8085''\<rparr>"
  let ?msg = "''bad http response code: '' @ fmt_d 500 @ '', body: '' @
              take 1024 (replicate 2000 CHR ''x'')"
  have h: "(500::int) \<noteq> 200" by simp
  have ma: "json_Marshal ?E ?b = Inr ''trino-1''"
    by (simp add: fixed_env_def)
  have na: "NewRequest ?E POST (getFullUrl ?tg ''/entity?entityType=GATEWAY_BACKEND'')
              (Some ''trino-1'') =
            Inr \<lparr>Method = POST, URL = getFullUrl ?tg ''/entity?entityType=GATEWAY_BACKEND'',
                 Body = Some ''trino-1'', BasicAuth = None\<rparr>"
    by (simp add: NewRequest_def fixed_env_def)
  have nd: "NewRequest ?E POST (getFullUrl ?tg ''/gateway/backend/modify/delete'')
              (Some ''trino-1'') =
            Inr \<lparr>Method = POST, URL = getFullUrl ?tg ''/gateway/backend/modify/delete'',
                 Body = Some ''trino-1'', BasicAuth = None\<rparr>"
    by (simp add: NewRequest_def fixed_env_def)
  have ng: "NewRequest ?E GET (getFullUrl ?tg ''/entity/GATEWAY_BACKEND'') None =
            Inr \<lparr>Method = GET, URL = getFullUrl ?tg ''/entity/GATEWAY_BACKEND'',
                 Body = None, BasicAuth = None\<rparr>"
    by (simp add: NewRequest_def fixed_env_def)
  have do: "Do ?E r = Response 500 (replicate 2000 CHR ''x'') None" for r
    by (simp add: fixed_env_def)
  have t: "?msg = ''bad http response code: 500, body: '' @ replicate 1024 CHR ''x''"
    by (simp add: fmt_d_500)
  have h': "(502::int) \<noteq> 200" by simp
  have nf: "NewRequest ?F GET (getFullUrl ?tg ''/entity/GATEWAY_BACKEND'') None =
            Inr \<lparr>Method = GET, URL = getFullUrl ?tg ''/entity/GATEWAY_BACKEND'',
                 Body = None, BasicAuth = None\<rparr>"
    by (simp add: NewRequest_def fixed_env_def)
  have df: "Do ?F r = Response 502 ''Bad Gate'' (Some ''unexpected EOF'')" for r
    by (simp add: fixed_env_def)
  from non_200_is_error [OF h refl, where E = ?E and tg = ?tg and backend = ?b and
      requestBody = "''trino-1''" and name = "''trino-1''" and sent = "[]" and
      rerr_a = None and rerr_d = None]
    non_200_is_error [OF h' refl, where E = ?F and tg = ?tg and body = "''Bad Gate''" and
      rerr_g = "''unexpected EOF''" and sent = "[]"]
    ma na nd ng do t nf df
  show ?thesis by simp
qed

text \<open>
  As worded for every response, C3 fails for \<open>GetAllBackends\<close>: at a response with status
  500 whose body cannot be read to the end, its error is \<open>cant read response body\<close>,
  which does not contain the status code.
\<close>

theorem non_200_is_error_counterexample:
  "fst (GetAllBackends
          (fixed_env (Response 500 ''partial'' (Some ''unexpected EOF'')) (Inr []))
          \<lparr>auth = None, endpoint = ''http://127.0.0.1:18080''\<rparr> []) =
     Inl ''cant read response body'' \<and>
   \<not> Contains ''cant read response body'' (fmt_d 500)"
proof -
  have "\<not> sublist ''500'' ''cant read response body''"
    by (simp add: sublist_Cons_right)
  then show ?thesis
    by (simp add: GetAllBackends_def NewRequest_def fixed_env_def Contains_def fmt_d_500)
qed




text \<open>
  C7.  When the gateway answers the list request with status 200 and the body \<open>[]\<close>,
  which \<open>json.Unmarshal\<close> decodes to the empty slice, \<open>GetAllBackends\<close> returns the empty
  list of backends and no error.
\<close>

theorem GetAllBackends_empty_array:
  assumes "NewRequest E GET (getFullUrl tg ''/entity/GATEWAY_BACKEND'') None = Inr request"
    and "Do E (addAuth tg request) = Response 200 ''[]'' None"
    and "json_Unmarshal E ''[]'' = Inr []"
  shows "GetAllBackends E tg sent = (Inr [], sent @ [addAuth tg request]) \<and>
         (\<forall>err. fst (GetAllBackends E tg sent) \<noteq> Inl err)"
  using assms by (simp add: GetAllBackends_def)

theorem GetAllBackends_empty_array_witness:
  "GetAllBackends (fixed_env (Response 200 ''[]'' None) (Inr []))
     \<lparr>auth = None, endpoint = ''http://127.0.0.1:18080''\<rparr> [] =
   (Inr [],
    [\<lparr>Method = GET, URL = ''http://127.0.0.1:18080/entity/GATEWAY_BACKEND'', Body = None,
      BasicAuth = None\<rparr>])"
proof -
  let ?E = "fixed_env (Response 200 ''[]'' None) (Inr [])"
  let ?tg = "\<lparr>auth = None, endpoint = ''http://127.0.0.1:18080''\<rparr>"
  let ?r = "\<lparr>Method = GET, URL = ''http://127.0.0.1:18080/entity/GATEWAY_BACKEND'', Body = None,
      BasicAuth = None\<rparr>"
  have n: "NewRequest ?E GET (getFullUrl ?tg ''/entity/GATEWAY_BACKEND'') None = Inr ?r"
    by (simp add: NewRequest_def fixed_env_def getFullUrl_def TrimSuffix_def HasSuffix_def)
  have d: "Do ?E (addAuth ?tg ?r) = Response 200 ''[]'' None"
    by (simp add: fixed_env_def)
  have u: "json_Unmarshal ?E ''[]'' = Inr []"
    by (simp add: fixed_env_def)
  from GetAllBackends_empty_array [OF n d u, of "[]"]
  show ?thesis by (simp add: addAuth_def)
qed

text \<open>
  C8.  Whenever the request can be built, \<open>DeleteBackend\<close> hands exactly one request to
  the HTTP client: a POST to the endpoint followed by \<open>/gateway/backend/modify/delete\<close>
  whose body is the name itself, with the client's credentials if it has any.  If the
  answer has status 404, the method returns an error whose text contains \<open>404\<close>.
\<close>

theorem DeleteBackend_request:
  assumes "NewRequest_error E POST (getFullUrl tg ''/gateway/backend/modify/delete'') = None"
    and "request =
           \<lparr>Method = POST,
            URL = TrimSuffix (endpoint tg) ''/'' @ ''/gateway/backend/modify/delete'',
            Body = Some name,
            BasicAuth = map_option (\<lambda>a. (auth_Login a, auth_Password a)) (auth tg)\<rparr>"
  shows "snd (DeleteBackend E tg name sent) = sent @ [request] \<and>
         (Do E request = Response 404 body rerr \<longrightarrow>
            fst (DeleteBackend E tg name sent) =
              Some (''bad http response code: 404, body: '' @ take 1024 body) \<and>
            Contains (''bad http response code: 404, body: '' @ take 1024 body) ''404'')"
proof -
  have r: "addAuth tg \<lparr>Method = POST, URL = getFullUrl tg ''/gateway/backend/modify/delete'',
             Body = Some name, BasicAuth = None\<rparr> = request"
    unfolding assms(2) by (simp add: addAuth_def getFullUrl_def split: option.split)
  have s: "snd (DeleteBackend E tg name sent) = sent @ [request]"
    using assms(1) r
    by (simp add: DeleteBackend_def NewRequest_def Let_def split: http_result.split)
  have c: "Contains (''bad http response code: 404, body: '' @ take 1024 body) ''404''"
    using Contains_middle [of "''bad http response code: ''" "''404''" "'', body: '' @ take 1024 body"]
    by simp
  have f: "fst (DeleteBackend E tg name sent) =
              Some (''bad http response code: 404, body: '' @ take 1024 body)"
    if "Do E request = Response 404 body rerr"
    using assms(1) r that
    by (simp add: DeleteBackend_def NewRequest_def Let_def bad_response_text fmt_d_404)
  from s c f show ?thesis by simp
qed

theorem DeleteBackend_request_witness:
  "DeleteBackend (fixed_env (Response 404 ''Not Found'' None) (Inr []))
     \<lparr>auth = None, endpoint = ''http://127.0.0.1:18080''\<rparr> ''trino-1'' [] =
   (Some ''bad http response code: 404, body: Not Found'',
    [\<lparr>Method = POST, URL = ''http://127.0.0.1:18080/gateway/backend/modify/delete'',
      Body = Some ''trino-1'', BasicAuth = None\<rparr>])"
proof -
  let ?E = "fixed_env (Response 404 ''Not Found'' None) (Inr [])"
  let ?tg = "\<lparr>auth = None, endpoint = ''http://127.0.0.1:18080''\<rparr>"
  let ?r = "\<lparr>Method = POST, URL = ''http://127.0.0.1:18080/gateway/backend/modify/delete'',
      Body = Some ''trino-1'', BasicAuth = None\<rparr>"
  have n: "NewRequest_error ?E POST (getFullUrl ?tg ''/gateway/backend/modify/delete'') = None"
    by (simp add: fixed_env_def)
  have r: "?r = \<lparr>Method = POST,
            URL = TrimSuffix (endpoint ?tg) ''/'' @ ''/gateway/backend/modify/delete'',
            Body = Some ''trino-1'',
            BasicAuth = map_option (\<lambda>a. (auth_Login a, auth_Password a)) (auth ?tg)\<rparr>"
    by (simp add: TrimSuffix_def HasSuffix_def)
  have d: "Do ?E ?r = Response 404 ''Not Found'' None"
    by (simp add: fixed_env_def)
  from DeleteBackend_request [OF n r, of "[]" "''Not Found''" None] d
  show ?thesis by (simp add: prod_eq_iff)
qed

section \<open>Credentials of the configured client\<close>

lemma NewRequest_no_auth: "NewRequest E m url body = Inr request \<Longrightarrow> BasicAuth request = None"
  by (auto simp add: NewRequest_def split: option.splits)

lemma addAuth_no_auth: "auth tg = None \<Longrightarrow> addAuth tg request = request"
  by (simp add: addAuth_def)

lemma AddOrUpdateBackend_no_auth:
  assumes "auth tg = None"
  shows "\<forall>r\<in>set (snd (AddOrUpdateBackend E tg backend [])). BasicAuth r = None"
  using assms
  by (auto simp add: AddOrUpdateBackend_def addAuth_no_auth Let_def
      dest: NewRequest_no_auth split: sum.splits http_result.splits)

lemma DeleteBackend_no_auth:
  assumes "auth tg = None"
  shows "\<forall>r\<in>set (snd (DeleteBackend E tg name [])). BasicAuth r = None"
  using assms
  by (auto simp add: DeleteBackend_def addAuth_no_auth Let_def
      dest: NewRequest_no_auth split: sum.splits http_result.splits)

lemma GetAllBackends_no_auth:
  assumes "auth tg = None"
  shows "\<forall>r\<in>set (snd (GetAllBackends E tg [])). BasicAuth r = None"
  using assms
  by (auto simp add: GetAllBackends_def addAuth_no_auth Let_def
      dest: NewRequest_no_auth split: sum.splits http_result.splits if_splits)

text \<open>
  C10.  Let the endpoint be set.  If the login is null, whatever the password,
  \<open>Configure\<close> raises no diagnostic and hands on a client without credentials, and no
  request of that client carries a Basic authorization.  A diagnostic is raised exactly
  when the login is not null and the password is null, and it is the one about the
  missing password.
\<close>

theorem Configure_lone_password:
  assumes "\<not> IsNull (Endpoint data)"
  shows "(IsNull (Login data) \<longrightarrow>
            Configure data =
              \<lparr>ConfigureDiagnostics = [],
               DataSourceData = Some \<lparr>auth = None, endpoint = ValueString (Endpoint data)\<rparr>,
               ResourceData = Some \<lparr>auth = None, endpoint = ValueString (Endpoint data)\<rparr>\<rparr> \<and>
            (\<forall>r\<in>set (snd (AddOrUpdateBackend E
                              \<lparr>auth = None, endpoint = ValueString (Endpoint data)\<rparr> backend [])) \<union>
                   set (snd (DeleteBackend E
                              \<lparr>auth = None, endpoint = ValueString (Endpoint data)\<rparr> name [])) \<union>
                   set (snd (GetAllBackends E
                              \<lparr>auth = None, endpoint = ValueString (Endpoint data)\<rparr> [])).
               BasicAuth r = None)) \<and>
         (ConfigureDiagnostics (Configure data) \<noteq> [] \<longleftrightarrow>
            \<not> IsNull (Login data) \<and> IsNull (Password data)) \<and>
         (\<not> IsNull (Login data) \<and> IsNull (Password data) \<longrightarrow>
            Configure data =
              \<lparr>ConfigureDiagnostics =
                 [ErrorDiagnostic ''Cant configure trino gateway client auth''
                    ''Cant configure trino gateway client auth: if login set, password should be set too''],
               DataSourceData = None, ResourceData = None\<rparr>)"
proof -
  let ?tg = "\<lparr>auth = None, endpoint = ValueString (Endpoint data)\<rparr>"
  have a: "auth ?tg = None" by simp
  have 1: "Configure data =
              \<lparr>ConfigureDiagnostics = [], DataSourceData = Some ?tg, ResourceData = Some ?tg\<rparr>"
    if "IsNull (Login data)"
    using assms that by (simp add: Configure_def NewTrinoGatewayClient_def)
  have 2: "\<forall>r\<in>set (snd (AddOrUpdateBackend E ?tg backend [])) \<union>
                   set (snd (DeleteBackend E ?tg name [])) \<union>
                   set (snd (GetAllBackends E ?tg [])). BasicAuth r = None"
    using AddOrUpdateBackend_no_auth [OF a, of E backend]
      DeleteBackend_no_auth [OF a, of E name] GetAllBackends_no_auth [OF a, of E]
    by blast
  have 3: "ConfigureDiagnostics (Configure data) \<noteq> [] \<longleftrightarrow>
            \<not> IsNull (Login data) \<and> IsNull (Password data)"
    using assms by (simp add: Configure_def NewTrinoGatewayClient_def)
  have 4: "Configure data =
              \<lparr>ConfigureDiagnostics =
                 [ErrorDiagnostic ''Cant configure trino gateway client auth''
                    ''Cant configure trino gateway client auth: if login set, password should be set too''],
               DataSourceData = None, ResourceData = None\<rparr>"
    if "\<not> IsNull (Login data)" "IsNull (Password data)"
    using assms that by (simp add: Configure_def)
  from 1 2 3 4 show ?thesis by blast
qed

theorem Configure_lone_password_witness:
  "Configure \<lparr>Endpoint = StringValue ''http://127.0.0.1:18080'', Login = StringNull,
              Password = StringValue ''admin''\<rparr> =
     \<lparr>ConfigureDiagnostics = [],
      DataSourceData = Some \<lparr>auth = None, endpoint = ''http://127.0.0.1:18080''\<rparr>,
      ResourceData = Some \<lparr>auth = None, endpoint = ''http://127.0.0.1:18080''\<rparr>\<rparr> \<and>
   snd (GetAllBackends (fixed_env (Response 200 ''[]'' None) (Inr []))
          \<lparr>auth = None, endpoint = ''http://127.0.0.1:18080''\<rparr> []) =
     [\<lparr>Method = GET, URL = ''http://127.0.0.1:18080/entity/GATEWAY_BACKEND'', Body = None,
       BasicAuth = None\<rparr>] \<and>
   Configure \<lparr>Endpoint = StringValue ''http://127.0.0.1:18080'', Login = StringValue ''admin'',
              Password = StringNull\<rparr> =
     \<lparr>ConfigureDiagnostics =
        [ErrorDiagnostic ''Cant configure trino gateway client auth''
           ''Cant configure trino gateway client auth: if login set, password should be set too''],
      DataSourceData = None, ResourceData = None\<rparr>"
proof -
  let ?d1 = "\<lparr>Endpoint = StringValue ''http://127.0.0.1:18080'', Login = StringNull,
              Password = StringValue ''admin''\<rparr>"
  let ?d2 = "\<lparr>Endpoint = StringValue ''http://127.0.0.1:18080'', Login = StringValue ''admin'',
              Password = StringNull\<rparr>"
  let ?E = "fixed_env (Response 200 ''[]'' None) (Inr [])"
  have h1: "\<not> IsNull (Endpoint ?d1)" by simp
  have h2: "\<not> IsNull (Endpoint ?d2)" by simp
  have g: "snd (GetAllBackends ?E \<lparr>auth = None, endpoint = ''http://127.0.0.1:18080''\<rparr> []) =
     [\<lparr>Method = GET, URL = ''http://127.0.0.1:18080/entity/GATEWAY_BACKEND'', Body = None,
       BasicAuth = None\<rparr>]"
    by (simp add: GetAllBackends_def NewRequest_def fixed_env_def getFullUrl_def TrimSuffix_def
        HasSuffix_def addAuth_def)
  from Configure_lone_password [OF h1, where E = ?E] Configure_lone_password [OF h2] g
  show ?thesis by simp
qed

end
